theory Spec2Isabelle
  imports Main "HOL-Library.Word"
begin

unbundle bit_operations_syntax

section \<open>Scheduling groups of \<^verbatim>\<open>include/seastar/core/scheduling.hh\<close>\<close>

text \<open>
  The header fixes the identity type \<^verbatim>\<open>scheduling_group\<close>, the thread-local cell
  that holds the current group of a shard, and the factory functions for the
  configuration of a scheduling-group-specific value. Each definition below embeds one
  function of the header; the C++ types \<^verbatim>\<open>unsigned\<close> and \<^verbatim>\<open>size_t\<close> are the
  32-bit and 64-bit words of the platforms the library builds on.
\<close>

type_synonym unsigned = "32 word"
type_synonym size_t = "64 word"

subsection \<open>Group identity\<close>

text \<open>\<^verbatim>\<open>constexpr unsigned max_scheduling_groups() { return 16; }\<close>\<close>

definition max_scheduling_groups :: unsigned where
  "max_scheduling_groups = 16"

text \<open>
  \<^verbatim>\<open>class scheduling_group { unsigned _id; ... }\<close>: the only data member is
  \<^verbatim>\<open>_id\<close>, here the field \<open>sg_id\<close>.
\<close>

record scheduling_group =
  sg_id :: unsigned

text \<open>
  The private \<^verbatim>\<open>explicit scheduling_group(unsigned id) : _id(id) {}\<close> and the public
  \<^verbatim>\<open>constexpr scheduling_group() noexcept : _id(0) {}\<close>.
\<close>

definition scheduling_group_ctor :: "unsigned \<Rightarrow> scheduling_group" where
  "scheduling_group_ctor i = \<lparr>sg_id = i\<rparr>"

definition scheduling_group_ctor_default :: scheduling_group where
  "scheduling_group_ctor_default = \<lparr>sg_id = 0\<rparr>"

text \<open>\<^verbatim>\<open>bool operator==(scheduling_group x) const { return _id == x._id; }\<close>\<close>

definition operator_eq :: "scheduling_group \<Rightarrow> scheduling_group \<Rightarrow> bool" where
  "operator_eq this x = (sg_id this = sg_id x)"

text \<open>\<^verbatim>\<open>bool operator!=(scheduling_group x) const { return _id != x._id; }\<close>\<close>

definition operator_ne :: "scheduling_group \<Rightarrow> scheduling_group \<Rightarrow> bool" where
  "operator_ne this x = (sg_id this \<noteq> sg_id x)"


text \<open>
  \<^verbatim>\<open>internal::scheduling_group_index\<close> returns \<^verbatim>\<open>sg._id\<close>, and
  \<^verbatim>\<open>internal::scheduling_group_from_index\<close> returns \<^verbatim>\<open>scheduling_group(index)\<close>
  through the private constructor; neither compares the index with
  \<^verbatim>\<open>max_scheduling_groups()\<close>.
\<close>

definition scheduling_group_index :: "scheduling_group \<Rightarrow> unsigned" where
  "scheduling_group_index sg = sg_id sg"

definition scheduling_group_from_index :: "unsigned \<Rightarrow> scheduling_group" where
  "scheduling_group_from_index index = scheduling_group_ctor index"

text \<open>\<^verbatim>\<open>inline scheduling_group default_scheduling_group() { return scheduling_group(); }\<close>\<close>

definition default_scheduling_group :: scheduling_group where
  "default_scheduling_group = scheduling_group_ctor_default"

text \<open>
  \<^verbatim>\<open>std::hash<seastar::scheduling_group>::operator()\<close> returns
  \<^verbatim>\<open>scheduling_group_index(sg)\<close>; the return type is \<^verbatim>\<open>size_t\<close>, so the
  \<^verbatim>\<open>unsigned\<close> index is zero-extended.
\<close>

definition hash_scheduling_group :: "scheduling_group \<Rightarrow> size_t" where
  "hash_scheduling_group sg = ucast (scheduling_group_index sg)"

subsection \<open>Current-group context\<close>

text \<open>
  \<^verbatim>\<open>internal::current_scheduling_group_ptr()\<close> declares
  \<^verbatim>\<open>static thread_local scheduling_group sg;\<close> and returns its address. There is
  one such object per thread, hence per shard, and its initialiser is the constexpr
  default constructor. The state is the content of that object on each shard; a pointer
  to it names the shard whose object it is.
\<close>

type_synonym shard = nat
type_synonym sg_cells = "shard \<Rightarrow> scheduling_group"

datatype sg_pointer = Ptr_sg shard

definition sg_cells_initial :: sg_cells where
  "sg_cells_initial = (\<lambda>t. scheduling_group_ctor_default)"

definition current_scheduling_group_ptr :: "shard \<Rightarrow> sg_pointer" where
  "current_scheduling_group_ptr t = Ptr_sg t"

fun deref_sg :: "sg_pointer \<Rightarrow> sg_cells \<Rightarrow> scheduling_group" where
  "deref_sg (Ptr_sg t) s = s t"

text \<open>\<^verbatim>\<open>return *internal::current_scheduling_group_ptr();\<close> on the calling shard \<open>t\<close>.\<close>

definition current_scheduling_group :: "shard \<Rightarrow> sg_cells \<Rightarrow> scheduling_group" where
  "current_scheduling_group t s = deref_sg (current_scheduling_group_ptr t) s"

text \<open>\<^verbatim>\<open>scheduling_group::active\<close>: \<^verbatim>\<open>return *this == current_scheduling_group();\<close>\<close>

definition active :: "scheduling_group \<Rightarrow> shard \<Rightarrow> sg_cells \<Rightarrow> bool" where
  "active this t s = operator_eq this (current_scheduling_group t s)"

subsection \<open>Memory and type-erased callbacks\<close>

text \<open>
  The callbacks of a configuration take a \<^verbatim>\<open>void*\<close> and act on the storage behind
  it. Memory is a function from addresses to bytes; an address is a natural number, so
  that the bytes of an object at \<open>p\<close> are those at \<open>p, p + 1, ...\<close> with no
  wrap-around. A \<^verbatim>\<open>std::function<void (void*)>\<close> is \<open>None\<close> when empty;
  calling an empty one throws \<^verbatim>\<open>std::bad_function_call\<close>.
\<close>

type_synonym addr = nat
type_synonym byte = "8 word"
type_synonym memory = "addr \<Rightarrow> byte"
type_synonym void_function = "(addr \<Rightarrow> memory \<Rightarrow> memory) option"

datatype error = Bad_function_call

definition call_function :: "void_function \<Rightarrow> addr \<Rightarrow> memory \<Rightarrow> error + memory" where
  "call_function f p m = (case f of None \<Rightarrow> Inl Bad_function_call | Some g \<Rightarrow> Inr (g p m))"

text \<open>\<^verbatim>\<open>memset(p, c, n)\<close> writes \<open>c\<close> to the \<open>n\<close> bytes from \<open>p\<close> on.\<close>

primrec memset :: "addr \<Rightarrow> byte \<Rightarrow> nat \<Rightarrow> memory \<Rightarrow> memory" where
  "memset p c 0 m = m"
| "memset p c (Suc n) m = (memset p c n m)(p + n := c)"

definition load_bytes :: "addr \<Rightarrow> nat \<Rightarrow> memory \<Rightarrow> byte list" where
  "load_bytes p n m = map m [p ..< p + n]"

subsection \<open>The template argument \<^verbatim>\<open>T\<close>\<close>

text \<open>
  The factory functions are templates over the stored type \<^verbatim>\<open>T\<close>. What they use of
  \<^verbatim>\<open>T\<close> is taken as a parameter: \<^verbatim>\<open>sizeof(T)\<close> and \<^verbatim>\<open>alignof(T)\<close>; for a
  scalar type its object representation (value to bytes and back); for a class type its
  constructor from an argument tuple, its default constructor and its destructor, each
  acting on the storage at an address.
\<close>

record ctype =
  sizeof :: nat
  alignof :: nat

record 'v scalar_type = ctype +
  to_bytes :: "'v \<Rightarrow> byte list"
  from_bytes :: "byte list \<Rightarrow> 'v"

record 'a class_type = ctype +
  construct_from :: "'a \<Rightarrow> addr \<Rightarrow> memory \<Rightarrow> memory"
  construct_default :: "addr \<Rightarrow> memory \<Rightarrow> memory"
  destroy :: "addr \<Rightarrow> memory \<Rightarrow> memory"

text \<open>
  One scalar type in full, for evaluation: \<^verbatim>\<open>unsigned\<close>, four bytes, least
  significant byte first.
\<close>

definition unsigned_to_bytes :: "unsigned \<Rightarrow> byte list" where
  "unsigned_to_bytes w = map (\<lambda>k. ucast (drop_bit (8 * k) w)) [0, 1, 2, 3]"

definition unsigned_from_bytes :: "byte list \<Rightarrow> unsigned" where
  "unsigned_from_bytes bs = foldr (\<lambda>b acc. ucast b OR push_bit 8 acc) bs 0"

definition unsigned_type :: "unsigned scalar_type" where
  "unsigned_type = \<lparr>sizeof = 4, alignof = 4,
     to_bytes = unsigned_to_bytes, from_bytes = unsigned_from_bytes\<rparr>"

subsection \<open>Configuration of a scheduling-group-specific value\<close>

text \<open>
  \<^verbatim>\<open>struct scheduling_group_key_config\<close>. Every factory function starts from a
  default-initialised \<^verbatim>\<open>sgkc\<close>, whose two \<^verbatim>\<open>std::function\<close> members are empty,
  assigns \<^verbatim>\<open>allocation_size\<close> and \<^verbatim>\<open>alignment\<close>, and then the callbacks it
  installs.
\<close>

type_synonym scheduling_group_key = "64 word"

record scheduling_group_key_config =
  allocation_size :: nat
  alignment :: nat
  constructor :: void_function
  destructor :: void_function

text \<open>
  Non-scalar \<^verbatim>\<open>T\<close>, with constructor arguments: the constructor callback captures
  \<^verbatim>\<open>std::make_tuple(args...)\<close> by value and runs
  \<^verbatim>\<open>new (p) T(std::make_from_tuple<T>(args))\<close>; the destructor callback runs
  \<^verbatim>\<open>static_cast<T*>(p)->~T()\<close>.
\<close>

definition make_scheduling_group_key_config_class ::
  "'a class_type \<Rightarrow> 'a \<Rightarrow> scheduling_group_key_config" where
  "make_scheduling_group_key_config_class T args =
     \<lparr>allocation_size = sizeof T, alignment = alignof T,
      constructor = Some (\<lambda>p m. construct_from T args p m),
      destructor = Some (\<lambda>p m. destroy T p m)\<rparr>"

text \<open>Non-scalar \<^verbatim>\<open>T\<close>, no arguments: \<^verbatim>\<open>new (p) T()\<close> and the same destructor callback.\<close>

definition make_scheduling_group_key_config_class_default ::
  "'a class_type \<Rightarrow> scheduling_group_key_config" where
  "make_scheduling_group_key_config_class_default T =
     \<lparr>allocation_size = sizeof T, alignment = alignof T,
      constructor = Some (\<lambda>p m. construct_default T p m),
      destructor = Some (\<lambda>p m. destroy T p m)\<rparr>"

text \<open>
  Scalar \<^verbatim>\<open>T\<close>, with an initial value (lines 127 to 137). The body of its
  constructor callback is the single statement \<^verbatim>\<open>(T)(*p) = initial_val;\<close> with
  \<^verbatim>\<open>void* p\<close>. The statement is ill-formed for every \<^verbatim>\<open>T\<close>: it dereferences a
  \<^verbatim>\<open>void*\<close>, and it assigns to the result of a cast to a non-reference type. No
  instantiation of this overload compiles, so there is no function to embed: it returns
  no configuration and its callback never runs. It has no definition here.
\<close>

text \<open>
  Scalar \<^verbatim>\<open>T\<close>, no arguments: the constructor callback runs
  \<^verbatim>\<open>memset(p, 0, sizeof(T))\<close>; the \<^verbatim>\<open>destructor\<close> member is not assigned.
\<close>

definition make_scheduling_group_key_config_scalar ::
  "'v scalar_type \<Rightarrow> scheduling_group_key_config" where
  "make_scheduling_group_key_config_scalar T =
     \<lparr>allocation_size = sizeof T, alignment = alignof T,
      constructor = Some (\<lambda>p m. memset p 0 (sizeof T) m),
      destructor = None\<rparr>"

section \<open>Properties of the group identity\<close>

text \<open>
  C9: \<^verbatim>\<open>max_scheduling_groups()\<close> is the constant 16, the bound on group indices.
\<close>

theorem max_scheduling_groups_is_16:
  "max_scheduling_groups = 16 \<and> unat max_scheduling_groups = 16"
  by (simp add: max_scheduling_groups_def)

text \<open>
  C10: \<^verbatim>\<open>scheduling_group_index(scheduling_group_from_index(i))\<close> is \<open>i\<close> for every
  unsigned \<open>i\<close>, and \<^verbatim>\<open>scheduling_group_from_index(scheduling_group_index(sg))\<close> is
  \<open>sg\<close> for every group. There is no range check: the index
  \<^verbatim>\<open>max_scheduling_groups()\<close> itself, outside the range of valid indices, comes back
  unchanged.
\<close>

theorem index_from_index_roundtrip:
  "scheduling_group_index (scheduling_group_from_index i) = i \<and>
   scheduling_group_from_index (scheduling_group_index sg) = sg \<and>
   \<not> scheduling_group_index (scheduling_group_from_index max_scheduling_groups)
       < max_scheduling_groups"
  by (simp add: scheduling_group_index_def scheduling_group_from_index_def
      scheduling_group_ctor_def)

text \<open>
  C5: \<open>a == b\<close> holds exactly when the indices of \<open>a\<close> and \<open>b\<close> are equal
  (and \<open>a != b\<close> exactly when they differ); the hash of \<open>a\<close> is its index,
  zero-extended; two identities with the same index have the same hash, compare alike
  with every third identity on either side, and are the same value.
\<close>

theorem eq_and_hash_by_index:
  "(operator_eq a b \<longleftrightarrow> scheduling_group_index a = scheduling_group_index b) \<and>
   (operator_ne a b \<longleftrightarrow> scheduling_group_index a \<noteq> scheduling_group_index b) \<and>
   hash_scheduling_group a = ucast (scheduling_group_index a) \<and>
   (scheduling_group_index a = scheduling_group_index b \<longrightarrow>
      hash_scheduling_group a = hash_scheduling_group b \<and>
      (\<forall>c. operator_eq a c = operator_eq b c \<and> operator_eq c a = operator_eq c b) \<and>
      a = b)"
  by (simp add: operator_eq_def operator_ne_def scheduling_group_index_def
      hash_scheduling_group_def)

theorem eq_and_hash_by_index_witness:
  "scheduling_group_index (scheduling_group_from_index 3)
     = scheduling_group_index (scheduling_group_from_index 3) \<and>
   hash_scheduling_group (scheduling_group_from_index 3) = 3 \<and>
   operator_eq (scheduling_group_from_index 3) (scheduling_group_from_index 3) \<and>
   \<not> operator_eq (scheduling_group_from_index 3) (scheduling_group_from_index 4)"
  using eq_and_hash_by_index [of "scheduling_group_from_index 3" "scheduling_group_from_index 3"]
    eq_and_hash_by_index [of "scheduling_group_from_index 3" "scheduling_group_from_index 4"]
  by (simp add: scheduling_group_from_index_def scheduling_group_ctor_def
      scheduling_group_index_def)



section \<open>Properties of the current-group context\<close>

text \<open>
  C4: for every group \<open>sg\<close>, every calling shard \<open>t\<close> and every content \<open>s\<close>
  of the thread-local cells, \<^verbatim>\<open>sg.active()\<close> is true exactly when \<open>sg\<close> equals
  \<^verbatim>\<open>current_scheduling_group()\<close> of that shard, which is the content of the shard's
  own cell.
\<close>

theorem active_iff_current:
  "(active sg t s \<longleftrightarrow> operator_eq sg (current_scheduling_group t s)) \<and>
   (active sg t s \<longleftrightarrow> sg = current_scheduling_group t s) \<and>
   current_scheduling_group t s = s t"
  by (cases sg, cases "s t")
    (simp add: active_def operator_eq_def current_scheduling_group_def
      current_scheduling_group_ptr_def)

text \<open>
  C7: on every shard \<open>t\<close>, in the initial state of the thread-local cells (no write
  to the cell has happened), \<^verbatim>\<open>current_scheduling_group()\<close> equals
  \<^verbatim>\<open>default_scheduling_group()\<close> and has index 0.
\<close>

theorem initial_current_group_is_default:
  "current_scheduling_group t sg_cells_initial = default_scheduling_group \<and>
   operator_eq (current_scheduling_group t sg_cells_initial) default_scheduling_group \<and>
   scheduling_group_index (current_scheduling_group t sg_cells_initial) = 0"
  by (simp add: current_scheduling_group_def current_scheduling_group_ptr_def
      sg_cells_initial_def default_scheduling_group_def operator_eq_def
      scheduling_group_index_def scheduling_group_ctor_default_def)

section \<open>Properties of the configuration factories\<close>

lemma memset_inside: "p \<le> a \<Longrightarrow> a < p + n \<Longrightarrow> memset p c n m a = c"
  by (induction n) auto

lemma memset_outside: "a < p \<or> p + n \<le> a \<Longrightarrow> memset p c n m a = m a"
  by (induction n) auto

lemma load_bytes_memset: "load_bytes p n (memset p c n m) = replicate n c"
  by (rule nth_equalityI) (simp_all add: load_bytes_def memset_inside)

text \<open>
  C2: for a scalar \<^verbatim>\<open>T\<close>, the configuration of the zero-argument overload records
  \<^verbatim>\<open>allocation_size = sizeof(T)\<close> and \<^verbatim>\<open>alignment = alignof(T)\<close>, and calling its
  constructor on an address \<open>p\<close> returns with each of the \<^verbatim>\<open>sizeof(T)\<close> bytes from
  \<open>p\<close> on equal to zero.
\<close>

theorem scalar_zero_config:
  "allocation_size (make_scheduling_group_key_config_scalar T) = sizeof T \<and>
   alignment (make_scheduling_group_key_config_scalar T) = alignof T \<and>
   (\<exists>m'. call_function (constructor (make_scheduling_group_key_config_scalar T)) p m = Inr m' \<and>
      (\<forall>i < sizeof T. m' (p + i) = 0) \<and>
      load_bytes p (sizeof T) m' = replicate (sizeof T) 0)"
  by (simp add: make_scheduling_group_key_config_scalar_def call_function_def
      memset_inside load_bytes_memset)

theorem scalar_zero_config_witness:
  "\<exists>m'. call_function (constructor (make_scheduling_group_key_config_scalar unsigned_type))
          8 (\<lambda>a. 255) = Inr m' \<and>
     (3::nat) < sizeof unsigned_type \<and> m' (8 + 3) = 0"
proof -
  have h: "(3::nat) < sizeof unsigned_type"
    by (simp add: unsigned_type_def)
  from scalar_zero_config [of unsigned_type 8 "\<lambda>a. 255"] obtain m' where
    c: "call_function (constructor (make_scheduling_group_key_config_scalar unsigned_type))
          8 (\<lambda>a. 255) = Inr m'"
    and z: "\<forall>i < sizeof unsigned_type. m' (8 + i) = 0"
    by blast
  from z h have "m' (8 + 3) = 0"
    by blast
  with c h show ?thesis
    by blast
qed

text \<open>
  C3: for a non-scalar \<^verbatim>\<open>T\<close> and an argument tuple, the configuration records
  \<^verbatim>\<open>sizeof(T)\<close> and \<^verbatim>\<open>alignof(T)\<close>; calling its constructor on \<open>p\<close> does what
  constructing a \<^verbatim>\<open>T\<close> from the captured arguments at \<open>p\<close> does (the default
  construction of \<^verbatim>\<open>T\<close> at \<open>p\<close> in the zero-argument overload), and calling its
  destructor on \<open>p\<close> does what the destructor of \<^verbatim>\<open>T\<close> does on the object at
  \<open>p\<close>.
\<close>

theorem class_config_callbacks:
  "allocation_size (make_scheduling_group_key_config_class T args) = sizeof T \<and>
   alignment (make_scheduling_group_key_config_class T args) = alignof T \<and>
   call_function (constructor (make_scheduling_group_key_config_class T args)) p m
     = Inr (construct_from T args p m) \<and>
   call_function (destructor (make_scheduling_group_key_config_class T args)) p m
     = Inr (destroy T p m) \<and>
   allocation_size (make_scheduling_group_key_config_class_default T) = sizeof T \<and>
   alignment (make_scheduling_group_key_config_class_default T) = alignof T \<and>
   call_function (constructor (make_scheduling_group_key_config_class_default T)) p m
     = Inr (construct_default T p m) \<and>
   call_function (destructor (make_scheduling_group_key_config_class_default T)) p m
     = Inr (destroy T p m)"
  by (simp add: make_scheduling_group_key_config_class_def
      make_scheduling_group_key_config_class_default_def call_function_def)

text \<open>
  The zero-argument scalar overload leaves the \<^verbatim>\<open>destructor\<close> member empty, so that
  calling it would throw \<^verbatim>\<open>std::bad_function_call\<close>.
\<close>

lemma scalar_zero_config_destructor_empty:
  "destructor (make_scheduling_group_key_config_scalar T) = None \<and>
   call_function (destructor (make_scheduling_group_key_config_scalar T)) p m
     = Inl Bad_function_call"
  by (simp add: make_scheduling_group_key_config_scalar_def call_function_def)

end
